theory Spec2Isabelle
  imports Main "HOL-Library.Word"
begin

unbundle bit_operations_syntax

section \<open>Data model\<close>

text \<open>
  A \<^verbatim>\<open>QMimeData\<close> object: the format names in the order \<^verbatim>\<open>formats()\<close> lists them,
  each with its byte payload. A \<^verbatim>\<open>uint\<close> is a 32-bit word.
\<close>

type_synonym mimedata = "(string \<times> string) list"
type_synonym uint = "32 word"

text \<open>\<^verbatim>\<open>QClipboard::Mode\<close>.\<close>

datatype Mode = Clipboard | Selection | FindBuffer

definition formats :: "mimedata \<Rightarrow> string list" where
  "formats d = map fst d"

text \<open>
  Modelled from the spec: \<^verbatim>\<open>cloneData\<close> and \<^verbatim>\<open>hash\<close> are declared in
  \<^verbatim>\<open>client_server.h\<close>, which is not part of the sources. The spec (4.1) gives
  \<^verbatim>\<open>restrict(snapshot, formatSet)\<close> as the subset of the entries whose names are in
  \<^verbatim>\<open>formatSet\<close>, or the full snapshot if \<^verbatim>\<open>formatSet\<close> is empty, and the
  fingerprint as a pure function of the restricted snapshot.
\<close>

definition restrict :: "mimedata \<Rightarrow> string list \<Rightarrow> mimedata" where
  "restrict d F = (if F = [] then d else filter (\<lambda>kv. fst kv \<in> set F) d)"

text \<open>
  Modelled from the spec: \<^verbatim>\<open>cloneData(data, &formats)\<close> keeps the accepted formats,
  \<^verbatim>\<open>cloneData(data)\<close> copies the whole object.
\<close>

definition cloneData :: "mimedata \<Rightarrow> string list option \<Rightarrow> mimedata" where
  "cloneData d F = (case F of None \<Rightarrow> d | Some fs \<Rightarrow> restrict d fs)"

text \<open>
  What is fixed when the program is built: whether \<^verbatim>\<open>Q_WS_X11\<close> is defined, and the
  fingerprint function behind \<^verbatim>\<open>hash\<close>.
\<close>

record platform =
  Q_WS_X11 :: bool
  fingerprint :: "mimedata \<Rightarrow> uint"

text \<open>
  Modelled from the spec: \<^verbatim>\<open>hash(data, formats)\<close> is the fingerprint of the data
  restricted to the given format names.
\<close>

definition hash :: "platform \<Rightarrow> mimedata \<Rightarrow> string list \<Rightarrow> uint" where
  "hash env d F = fingerprint env (restrict d F)"

text \<open>
  The settings mapping of a settings message (\<^verbatim>\<open>QVariantMap\<close>), with the keys and
  value types of the wire interface; \<^verbatim>\<open>settings.contains(k)\<close> is \<open>\<noteq> None\<close>.
\<close>

record settings =
  s_last_hash :: "uint option"
  s_formats :: "string option"
  s_check_clipboard :: "bool option"
  s_copy_clipboard :: "bool option"
  s_copy_selection :: "bool option"
  s_check_selection :: "bool option"

text \<open>
  One framed message buffered on the socket: \<open>Broken\<close> when \<^verbatim>\<open>readMessage\<close> fails
  on it, \<open>Settings\<close> when the item carries a non-empty
  \<^verbatim>\<open>application/x-copyq-settings\<close> payload (here already deserialized), \<open>Push\<close>
  otherwise, with the item's data.
\<close>

datatype frame = Broken | Settings settings | Push mimedata

text \<open>
  What the process does to the outside: a write to a clipboard buffer
  (\<^verbatim>\<open>setClipboardData\<close>), a message written to the server socket
  (\<^verbatim>\<open>writeMessage\<close>), a line of the error log.
\<close>

datatype effect = Wrote Mode mimedata | Sent mimedata | Logged string

text \<open>
  The \<^verbatim>\<open>ClipboardMonitor\<close> object with its timers and socket, and the part of the
  window system it reads. A single-shot timer is \<open>None\<close> when inactive and
  \<open>Some ms\<close> when it was started with interval \<open>ms\<close> and has not fired yet.
\<close>

record monitor =
  m_formats :: "string list"
  m_newdata :: "mimedata option"
  m_checkclip :: bool
  m_copyclip :: bool
  m_checksel :: bool
  m_copysel :: bool
  m_lastHash :: uint
  m_updateTimer :: "nat option"
  x11_dsp :: bool
  x11_timer :: "nat option"
  sock_blocked :: bool
  sock_in :: "frame list"
  os_owns_clipboard :: bool
  os_owns_selection :: bool
  os_clipboard :: "mimedata option"
  os_selection :: "mimedata option"
  os_pointer :: uint
  os_display :: bool
  effects :: "effect list"

text \<open>
  The constructor (with a server that accepts the connection): no formats, no pending
  data, every flag off, last hash 0, both timers inactive. The window system starts with
  empty buffers, no key or button held and a display that can be opened.
\<close>

definition init :: monitor where
  "init = \<lparr> m_formats = [], m_newdata = None,
            m_checkclip = False, m_copyclip = False, m_checksel = False, m_copysel = False,
            m_lastHash = 0, m_updateTimer = None, x11_dsp = False, x11_timer = None,
            sock_blocked = False, sock_in = [],
            os_owns_clipboard = False, os_owns_selection = False,
            os_clipboard = None, os_selection = None, os_pointer = 0, os_display = True,
            effects = [] \<rparr>"

section \<open>Collaborators\<close>

definition logError :: "string \<Rightarrow> monitor \<Rightarrow> monitor" where
  "logError msg st = st\<lparr> effects := effects st @ [Logged msg] \<rparr>"

text \<open>\<^verbatim>\<open>clipboardData(mode)\<close>: the content of the buffer, or \<^verbatim>\<open>NULL\<close>.\<close>

definition clipboardData :: "Mode \<Rightarrow> monitor \<Rightarrow> mimedata option" where
  "clipboardData mode st =
     (case mode of Clipboard \<Rightarrow> os_clipboard st | Selection \<Rightarrow> os_selection st
      | FindBuffer \<Rightarrow> None)"

text \<open>
  Modelled from the spec: \<^verbatim>\<open>setClipboardData(data, mode)\<close> writes the buffer, and a
  buffer this process wrote is owned by it until another application replaces the content.
\<close>

definition setClipboardData :: "mimedata \<Rightarrow> Mode \<Rightarrow> monitor \<Rightarrow> monitor" where
  "setClipboardData d mode st =
     (case mode of
        Clipboard \<Rightarrow> st\<lparr> os_owns_clipboard := True, os_clipboard := Some d,
                          effects := effects st @ [Wrote Clipboard d] \<rparr>
      | Selection \<Rightarrow> st\<lparr> os_owns_selection := True, os_selection := Some d,
                          effects := effects st @ [Wrote Selection d] \<rparr>
      | FindBuffer \<Rightarrow> st\<lparr> effects := effects st @ [Wrote FindBuffer d] \<rparr>)"

text \<open>
  \<^verbatim>\<open>QApplication::processEvents()\<close>, with no event waiting in the queue: handlers run
  to completion one after the other.
\<close>

definition processEvents :: "monitor \<Rightarrow> monitor" where
  "processEvents st = st"

section \<open>PrivateX11\<close>

text \<open>\<^verbatim>\<open>Button1Mask\<close> and \<^verbatim>\<open>ShiftMask\<close> of \<^verbatim>\<open>X11/X.h\<close>.\<close>

definition Button1Mask :: uint where "Button1Mask = 256"
definition ShiftMask :: uint where "ShiftMask = 1"

definition waitForKeyRelease :: "monitor \<Rightarrow> bool \<times> monitor" where
  "waitForKeyRelease st =
     (if x11_timer st \<noteq> None then (True, st)
      else if \<not> x11_dsp st \<and> \<not> os_display st then (False, st)
      else let st1 = st\<lparr> x11_dsp := True \<rparr> in
        if os_pointer st1 AND (Button1Mask OR ShiftMask) \<noteq> 0
        then (True, st1\<lparr> x11_timer := Some 100 \<rparr>)
        else (False, st1))"

section \<open>ClipboardMonitor\<close>

text \<open>
  \<^verbatim>\<open>QString::split(QRegExp("[;,\\s]+"))\<close>: the pieces between maximal runs of
  separators, empty pieces kept. \<open>insep\<close> tells that the previous character was a
  separator.
\<close>

definition isSeparator :: "char \<Rightarrow> bool" where
  "isSeparator c = (c \<in> set '';, '' \<or> c \<in> {CHR 0x09, CHR 0x0A, CHR 0x0B, CHR 0x0C, CHR 0x0D})"

fun splitList :: "string \<Rightarrow> bool \<Rightarrow> string \<Rightarrow> string list" where
  "splitList acc insep [] = [acc]"
| "splitList acc insep (c # cs) =
     (if isSeparator c
      then (if insep then splitList acc True cs else acc # splitList [] True cs)
      else splitList (acc @ [c]) False cs)"

definition setFormats :: "string \<Rightarrow> monitor \<Rightarrow> monitor" where
  "setFormats list st = st\<lparr> m_formats := splitList [] False list \<rparr>"

text \<open>The inline setters of the header.\<close>

definition setCheckClipboard :: "bool \<Rightarrow> monitor \<Rightarrow> monitor" where
  "setCheckClipboard enable st = st\<lparr> m_checkclip := enable \<rparr>"

definition setCopyClipboard :: "bool \<Rightarrow> monitor \<Rightarrow> monitor" where
  "setCopyClipboard enable st = st\<lparr> m_copyclip := enable \<rparr>"

definition setCopySelection :: "bool \<Rightarrow> monitor \<Rightarrow> monitor" where
  "setCopySelection enable st = st\<lparr> m_copysel := enable \<rparr>"

definition setCheckSelection :: "bool \<Rightarrow> monitor \<Rightarrow> monitor" where
  "setCheckSelection enable st = st\<lparr> m_checksel := enable \<rparr>"

text \<open>
  \<^verbatim>\<open>clipboardChanged(mode, data)\<close> wraps the data in an item and writes it to the
  server socket; the mode is not part of the message.
\<close>

definition clipboardChanged :: "Mode \<Rightarrow> mimedata \<Rightarrow> monitor \<Rightarrow> monitor" where
  "clipboardChanged mode d st = st\<lparr> effects := effects st @ [Sent d] \<rparr>"

text \<open>
  \<^verbatim>\<open>updateSelection(false)\<close> as \<^verbatim>\<open>checkClipboard\<close> calls it: the \<^verbatim>\<open>check\<close>
  branch is not taken, so the call is the guard alone.
\<close>

definition updateSelection_nocheck :: "monitor \<Rightarrow> bool \<times> monitor" where
  "updateSelection_nocheck st =
     (case waitForKeyRelease st of (waiting, st1) \<Rightarrow>
        if waiting then (False, st1) else (True, st1))"

text \<open>
  \<^verbatim>\<open>checkClipboard\<close> under \<^verbatim>\<open>Q_WS_X11\<close>. The first part decides whether the data
  are needed; the second reads, deduplicates, filters and distributes them.
\<close>

definition checkClipboard_x11 :: "platform \<Rightarrow> Mode \<Rightarrow> monitor \<Rightarrow> monitor" where
  "checkClipboard_x11 env mode st =
     (case (case mode of
              Clipboard \<Rightarrow>
                if (\<not> m_checkclip st \<and> \<not> m_copyclip st) \<or> os_owns_clipboard st
                then (False, st) else (True, st)
            | Selection \<Rightarrow>
                if (\<not> m_checksel st \<and> \<not> m_copysel st) \<or> os_owns_selection st
                then (False, st)
                else (case updateSelection_nocheck st of (ok, st0) \<Rightarrow>
                        if \<not> ok then (False, st0) else (True, processEvents st0))
            | FindBuffer \<Rightarrow> (False, st))
      of (needed, st1) \<Rightarrow>
        if \<not> needed then st1
        else (case clipboardData mode st1 of
                None \<Rightarrow> logError ''Cannot access clipboard data!'' st1
              | Some data0 \<Rightarrow>
                  let newHash = hash env data0 (m_formats st1) in
                  if m_lastHash st1 = newHash then st1
                  else let data = cloneData data0 (Some (m_formats st1)) in
                    if formats data = [] then st1
                    else let st2 = st1\<lparr> m_lastHash := newHash \<rparr> in
                      if mode = Clipboard
                      then (let st3 = (if m_checkclip st2
                                       then clipboardChanged mode (cloneData data None) st2
                                       else st2)
                            in if m_copyclip st3
                               then setClipboardData (cloneData data None) Selection st3
                               else st3)
                      else (let st3 = (if m_checksel st2
                                       then clipboardChanged mode (cloneData data None) st2
                                       else st2)
                            in if m_copysel st3
                               then setClipboardData (cloneData data None) Clipboard st3
                               else st3)))"

text \<open>\<^verbatim>\<open>checkClipboard\<close> without \<^verbatim>\<open>Q_WS_X11\<close>.\<close>

definition checkClipboard_other :: "platform \<Rightarrow> Mode \<Rightarrow> monitor \<Rightarrow> monitor" where
  "checkClipboard_other env mode st =
     (if mode \<noteq> Clipboard \<or> \<not> m_checkclip st \<or> os_owns_clipboard st then st
      else (case clipboardData mode st of
              None \<Rightarrow> logError ''Cannot access clipboard data!'' st
            | Some data \<Rightarrow>
                let newHash = hash env data (m_formats st) in
                if m_lastHash st = newHash then st
                else let data2 = cloneData data (Some (m_formats st)) in
                  if formats data2 = [] then st
                  else clipboardChanged mode data2 (st\<lparr> m_lastHash := newHash \<rparr>)))"

definition checkClipboard :: "platform \<Rightarrow> Mode \<Rightarrow> monitor \<Rightarrow> monitor" where
  "checkClipboard env mode st =
     (if Q_WS_X11 env then checkClipboard_x11 env mode st
      else checkClipboard_other env mode st)"

text \<open>
  \<^verbatim>\<open>updateSelection(check)\<close>; the timer of \<^verbatim>\<open>PrivateX11\<close> calls it with
  \<^verbatim>\<open>check\<close> true. Without \<^verbatim>\<open>Q_WS_X11\<close> it only returns true.
\<close>

definition updateSelection :: "platform \<Rightarrow> bool \<Rightarrow> monitor \<Rightarrow> bool \<times> monitor" where
  "updateSelection env check st =
     (if Q_WS_X11 env
      then (case waitForKeyRelease st of (waiting, st1) \<Rightarrow>
              if waiting then (False, st1)
              else if check then (True, checkClipboard env Selection st1)
              else (True, st1))
      else (True, st))"

text \<open>
  \<^verbatim>\<open>updateClipboard(data, force)\<close>; \<^verbatim>\<open>readyRead\<close> calls it without \<^verbatim>\<open>force\<close>
  (false), \<^verbatim>\<open>updateTimeout\<close> with \<^verbatim>\<open>force\<close> true.
\<close>

definition updateClipboard :: "platform \<Rightarrow> mimedata \<Rightarrow> bool \<Rightarrow> monitor \<Rightarrow> monitor" where
  "updateClipboard env data force st =
     (let st1 = st\<lparr> m_newdata := Some data \<rparr> in
      if \<not> force \<and> m_updateTimer st1 \<noteq> None then st1
      else let st2 = st1\<lparr> m_lastHash := hash env data (formats data) \<rparr>;
               st3 = setClipboardData data Clipboard st2;
               st4 = (if Q_WS_X11 env
                      then setClipboardData (cloneData data None) Selection st3
                      else st3)
           in st4\<lparr> m_newdata := None, m_updateTimer := Some 500 \<rparr>)"

definition updateTimeout :: "platform \<Rightarrow> monitor \<Rightarrow> monitor" where
  "updateTimeout env st =
     (case m_newdata st of None \<Rightarrow> st | Some data \<Rightarrow> updateClipboard env data True st)"

text \<open>
  The field updates of a settings message in \<^verbatim>\<open>readyRead\<close>, in the order of the source;
  the three selection keys are read under \<^verbatim>\<open>Q_WS_X11\<close> only.
\<close>

definition applySettings :: "platform \<Rightarrow> settings \<Rightarrow> monitor \<Rightarrow> monitor" where
  "applySettings env s st =
     (let st1 = (case s_last_hash s of
                   Some h \<Rightarrow> if m_lastHash st = 0 then st\<lparr> m_lastHash := h \<rparr> else st
                 | None \<Rightarrow> st);
          st2 = (case s_formats s of Some l \<Rightarrow> setFormats l st1 | None \<Rightarrow> st1);
          st3 = (case s_check_clipboard s of
                   Some b \<Rightarrow> setCheckClipboard b st2 | None \<Rightarrow> st2)
      in if Q_WS_X11 env
         then (let st4 = (case s_copy_clipboard s of
                            Some b \<Rightarrow> setCopyClipboard b st3 | None \<Rightarrow> st3);
                   st5 = (case s_copy_selection s of
                            Some b \<Rightarrow> setCopySelection b st4 | None \<Rightarrow> st4)
               in (case s_check_selection s of
                     Some b \<Rightarrow> setCheckSelection b st5 | None \<Rightarrow> st5))
         else st3)"

text \<open>
  The body of the \<^verbatim>\<open>while\<close> loop of \<^verbatim>\<open>readyRead\<close> for one message that was read.
\<close>

definition handleMessage :: "platform \<Rightarrow> frame \<Rightarrow> monitor \<Rightarrow> monitor" where
  "handleMessage env f st =
     (case f of
        Settings s \<Rightarrow>
          (let st1 = applySettings env s st;
               st2 = (if Q_WS_X11 env then checkClipboard env Selection st1 else st1)
           in checkClipboard env Clipboard st2)
      | Push d \<Rightarrow> updateClipboard env (cloneData d None) False st
      | Broken \<Rightarrow> st)"

text \<open>
  The loop of \<^verbatim>\<open>readyRead\<close> over the buffered frames. A frame that cannot be read is
  logged and the function returns at once; the rest of the buffer stays in the socket.
  Only the normal exit of the loop unblocks the signals of the socket.
\<close>

fun readLoop :: "platform \<Rightarrow> frame list \<Rightarrow> monitor \<Rightarrow> monitor" where
  "readLoop env [] st = st\<lparr> sock_in := [], sock_blocked := False \<rparr>"
| "readLoop env (Broken # fs) st =
     logError ''Cannot read message from server!'' (st\<lparr> sock_in := fs \<rparr>)"
| "readLoop env (f # fs) st = readLoop env fs (handleMessage env f (st\<lparr> sock_in := fs \<rparr>))"

definition readyRead :: "platform \<Rightarrow> monitor \<Rightarrow> monitor" where
  "readyRead env st = readLoop env (sock_in st) (st\<lparr> sock_blocked := True \<rparr>)"

section \<open>The event loop\<close>

text \<open>
  The signals connected in the constructor, and what the outside does between them.
  \<open>Readable fs\<close>: the frames \<open>fs\<close> arrive and the socket emits \<^verbatim>\<open>readyRead\<close>; an
  object whose signals are blocked emits nothing. \<open>UpdateTimerFired\<close> and
  \<open>X11TimerFired\<close>: an active single-shot timer expires, becomes inactive and emits
  \<^verbatim>\<open>timeout\<close>. \<open>Changed mode\<close>: \<^verbatim>\<open>QClipboard::changed(mode)\<close>.
  \<open>ExternalChange mode snap\<close>: another application replaces the content of a buffer
  (taking its ownership), then \<^verbatim>\<open>changed(mode)\<close>. \<open>Pointer w\<close>: the button and
  modifier state becomes \<open>w\<close>.
\<close>

datatype event =
    Readable "frame list"
  | UpdateTimerFired
  | X11TimerFired
  | Changed Mode
  | ExternalChange Mode "mimedata option"
  | Pointer uint

text \<open>
  Another application puts \<open>snap\<close> into a buffer: the content changes and this process
  no longer owns the buffer. \<open>onExternalChange\<close> is that change followed by the
  \<^verbatim>\<open>checkClipboard\<close> call its \<^verbatim>\<open>changed(mode)\<close> signal triggers.
\<close>

definition otherAppWrites :: "Mode \<Rightarrow> mimedata option \<Rightarrow> monitor \<Rightarrow> monitor" where
  "otherAppWrites mode snap st =
     (case mode of
        Clipboard \<Rightarrow> st\<lparr> os_owns_clipboard := False, os_clipboard := snap \<rparr>
      | Selection \<Rightarrow> st\<lparr> os_owns_selection := False, os_selection := snap \<rparr>
      | FindBuffer \<Rightarrow> st)"

definition onExternalChange :: "platform \<Rightarrow> Mode \<Rightarrow> mimedata option \<Rightarrow> monitor \<Rightarrow> monitor" where
  "onExternalChange env mode snap st = checkClipboard env mode (otherAppWrites mode snap st)"

definition dispatch :: "platform \<Rightarrow> event \<Rightarrow> monitor \<Rightarrow> monitor" where
  "dispatch env ev st =
     (case ev of
        Readable fs \<Rightarrow>
          (let st1 = st\<lparr> sock_in := sock_in st @ fs \<rparr>
           in if sock_blocked st1 then st1 else readyRead env st1)
      | UpdateTimerFired \<Rightarrow>
          (if m_updateTimer st = None then st
           else updateTimeout env (st\<lparr> m_updateTimer := None \<rparr>))
      | X11TimerFired \<Rightarrow>
          (if Q_WS_X11 env \<and> x11_timer st \<noteq> None
           then snd (updateSelection env True (st\<lparr> x11_timer := None \<rparr>))
           else st)
      | Changed mode \<Rightarrow> checkClipboard env mode st
      | ExternalChange mode snap \<Rightarrow> onExternalChange env mode snap st
      | Pointer w \<Rightarrow> st\<lparr> os_pointer := w \<rparr>)"

fun run :: "platform \<Rightarrow> event list \<Rightarrow> monitor \<Rightarrow> monitor" where
  "run env [] st = st"
| "run env (ev # evs) st = run env evs (dispatch env ev st)"

section \<open>Notions used by the properties\<close>

text \<open>
  The pending-push slot is filled only while the debounce timer is active.
\<close>

definition pendingInv :: "monitor \<Rightarrow> bool" where
  "pendingInv st = (m_newdata st \<noteq> None \<longrightarrow> m_updateTimer st \<noteq> None)"

text \<open>
  The intervals set in the constructors: a running debounce timer was started with 500 ms,
  a running selection timer with 100 ms.
\<close>

definition timersInv :: "monitor \<Rightarrow> bool" where
  "timersInv st =
     ((m_updateTimer st = None \<or> m_updateTimer st = Some 500)
      \<and> (x11_timer st = None \<or> x11_timer st = Some 100))"

text \<open>An outbound change notification is a message written to the server.\<close>

fun isSent :: "effect \<Rightarrow> bool" where
  "isSent (Sent d) = True"
| "isSent (Wrote mode d) = False"
| "isSent (Logged msg) = False"

text \<open>
  The watch flag of a buffer (\<^verbatim>\<open>check_clipboard\<close>, \<^verbatim>\<open>check_selection\<close>) and its
  mirror flag (\<^verbatim>\<open>copy_clipboard\<close>, \<^verbatim>\<open>copy_selection\<close>).
\<close>

definition watchFlag :: "Mode \<Rightarrow> monitor \<Rightarrow> bool" where
  "watchFlag mode st =
     (case mode of Clipboard \<Rightarrow> m_checkclip st | Selection \<Rightarrow> m_checksel st
      | FindBuffer \<Rightarrow> False)"

definition mirrorFlag :: "Mode \<Rightarrow> monitor \<Rightarrow> bool" where
  "mirrorFlag mode st =
     (case mode of Clipboard \<Rightarrow> m_copyclip st | Selection \<Rightarrow> m_copysel st
      | FindBuffer \<Rightarrow> False)"

section \<open>Concrete inputs\<close>

text \<open>
  A fingerprint to run the model on examples: it counts the bytes of the names and
  payloads, so it is 0 on the empty snapshot and does not depend on the order of the
  formats. The two builds of the program with it.
\<close>

definition exampleFingerprint :: "mimedata \<Rightarrow> uint" where
  "exampleFingerprint d =
     of_nat (sum_list (map (\<lambda>kv. length (fst kv) + length (snd kv) + 1) d))"

definition env_x11 :: platform where
  "env_x11 = \<lparr> Q_WS_X11 = True, fingerprint = exampleFingerprint \<rparr>"

definition env_other :: platform where
  "env_other = \<lparr> Q_WS_X11 = False, fingerprint = exampleFingerprint \<rparr>"

definition textA :: mimedata where
  "textA = [(''text/plain'', ''a'')]"

definition textB :: mimedata where
  "textB = [(''text/plain'', ''b'')]"

definition pngOnly :: mimedata where
  "pngOnly = [(''image/png'', ''x'')]"

definition textAndPng :: mimedata where
  "textAndPng = [(''text/plain'', ''hello''), (''image/png'', ''x'')]"

definition onlyFormats :: settings where
  "onlyFormats = \<lparr> s_last_hash = None, s_formats = Some ''text/plain'',
                   s_check_clipboard = None, s_copy_clipboard = None,
                   s_copy_selection = None, s_check_selection = None \<rparr>"

definition withLastHash :: settings where
  "withLastHash = \<lparr> s_last_hash = Some 7, s_formats = None,
                    s_check_clipboard = Some True, s_copy_clipboard = None,
                    s_copy_selection = None, s_check_selection = None \<rparr>"

section \<open>Basic facts\<close>

lemmas model_defs = checkClipboard_def checkClipboard_x11_def checkClipboard_other_def
  updateSelection_nocheck_def waitForKeyRelease_def processEvents_def clipboardData_def
  logError_def clipboardChanged_def setClipboardData_def cloneData_def hash_def
  updateClipboard_def updateTimeout_def applySettings_def handleMessage_def readyRead_def
  setFormats_def setCheckClipboard_def setCopyClipboard_def setCopySelection_def
  setCheckSelection_def updateSelection_def otherAppWrites_def onExternalChange_def
  dispatch_def

lemmas example_defs = init_def env_x11_def env_other_def exampleFingerprint_def
  textA_def textB_def pngOnly_def textAndPng_def onlyFormats_def withLastHash_def

lemma formats_Nil: "formats d = [] \<longleftrightarrow> d = []"
  by (simp add: formats_def)

lemma restrict_own_formats: "restrict d (formats d) = d"
  by (auto simp: restrict_def formats_def filter_id_conv)

lemma updateSelection_False: "Q_WS_X11 env \<Longrightarrow> updateSelection env False st = updateSelection_nocheck st"
  by (simp add: updateSelection_def updateSelection_nocheck_def split: prod.splits)

section \<open>What the handlers leave alone\<close>

lemma checkClipboard_keeps:
  "m_formats (checkClipboard env mode st) = m_formats st"
  "m_newdata (checkClipboard env mode st) = m_newdata st"
  "m_checkclip (checkClipboard env mode st) = m_checkclip st"
  "m_copyclip (checkClipboard env mode st) = m_copyclip st"
  "m_checksel (checkClipboard env mode st) = m_checksel st"
  "m_copysel (checkClipboard env mode st) = m_copysel st"
  "m_updateTimer (checkClipboard env mode st) = m_updateTimer st"
  "sock_blocked (checkClipboard env mode st) = sock_blocked st"
  "sock_in (checkClipboard env mode st) = sock_in st"
  by (auto simp: model_defs Let_def split: Mode.splits option.splits prod.splits if_splits)

lemma checkClipboard_x11_timer:
  "x11_timer (checkClipboard env mode st) = x11_timer st
   \<or> x11_timer (checkClipboard env mode st) = Some 100"
  by (auto simp: model_defs Let_def split: Mode.splits option.splits prod.splits if_splits)

lemma applySettings_keeps:
  "m_newdata (applySettings env s st) = m_newdata st"
  "m_updateTimer (applySettings env s st) = m_updateTimer st"
  "x11_timer (applySettings env s st) = x11_timer st"
  by (auto simp: applySettings_def setFormats_def setCheckClipboard_def setCopyClipboard_def
        setCopySelection_def setCheckSelection_def Let_def split: option.splits)

lemma applySettings_fields:
  "m_formats (applySettings env s st)
     = (case s_formats s of None \<Rightarrow> m_formats st | Some l \<Rightarrow> splitList [] False l)"
  "m_checkclip (applySettings env s st)
     = (case s_check_clipboard s of None \<Rightarrow> m_checkclip st | Some b \<Rightarrow> b)"
  "m_copyclip (applySettings env s st)
     = (case s_copy_clipboard s of None \<Rightarrow> m_copyclip st
        | Some b \<Rightarrow> if Q_WS_X11 env then b else m_copyclip st)"
  "m_copysel (applySettings env s st)
     = (case s_copy_selection s of None \<Rightarrow> m_copysel st
        | Some b \<Rightarrow> if Q_WS_X11 env then b else m_copysel st)"
  "m_checksel (applySettings env s st)
     = (case s_check_selection s of None \<Rightarrow> m_checksel st
        | Some b \<Rightarrow> if Q_WS_X11 env then b else m_checksel st)"
  by (simp_all add: applySettings_def setFormats_def setCheckClipboard_def
        setCopyClipboard_def setCopySelection_def setCheckSelection_def Let_def
        split: option.splits)

lemma handleMessage_Settings_fields:
  "m_formats (handleMessage env (Settings s) st) = m_formats (applySettings env s st)"
  "m_checkclip (handleMessage env (Settings s) st) = m_checkclip (applySettings env s st)"
  "m_copyclip (handleMessage env (Settings s) st) = m_copyclip (applySettings env s st)"
  "m_copysel (handleMessage env (Settings s) st) = m_copysel (applySettings env s st)"
  "m_checksel (handleMessage env (Settings s) st) = m_checksel (applySettings env s st)"
  by (simp_all add: handleMessage_def checkClipboard_keeps Let_def)

lemma waitForKeyRelease_other:
  "waitForKeyRelease (otherAppWrites mode snap st)
     = (fst (waitForKeyRelease st), otherAppWrites mode snap (snd (waitForKeyRelease st)))"
  by (cases mode) (simp_all add: waitForKeyRelease_def otherAppWrites_def Let_def)

lemma waitForKeyRelease_snd:
  "effects (snd (waitForKeyRelease st)) = effects st"
  "m_lastHash (snd (waitForKeyRelease st)) = m_lastHash st"
  "os_clipboard (snd (waitForKeyRelease st)) = os_clipboard st"
  "m_newdata (snd (waitForKeyRelease st)) = m_newdata st"
  "m_updateTimer (snd (waitForKeyRelease st)) = m_updateTimer st"
  by (simp_all add: waitForKeyRelease_def Let_def)

lemma waitForKeyRelease_timer:
  "fst (waitForKeyRelease st) \<Longrightarrow>
     x11_timer (snd (waitForKeyRelease st)) = (if x11_timer st = None then Some 100 else x11_timer st)"
  by (auto simp: waitForKeyRelease_def Let_def split: if_splits)

lemma otherAppWrites_Selection:
  "effects (otherAppWrites Selection snap st) = effects st"
  "m_lastHash (otherAppWrites Selection snap st) = m_lastHash st"
  "os_clipboard (otherAppWrites Selection snap st) = os_clipboard st"
  "x11_timer (otherAppWrites Selection snap st) = x11_timer st"
  "m_checksel (otherAppWrites Selection snap st) = m_checksel st"
  "m_copysel (otherAppWrites Selection snap st) = m_copysel st"
  "os_owns_selection (otherAppWrites Selection snap st) = False"
  by (simp_all add: otherAppWrites_def)

lemma forming_checkClipboard:
  assumes "Q_WS_X11 env" and "fst (waitForKeyRelease st)"
  shows "checkClipboard env Selection st
           = (if (m_checksel st \<or> m_copysel st) \<and> \<not> os_owns_selection st
              then snd (waitForKeyRelease st) else st)"
  using assms
  by (auto simp: checkClipboard_def checkClipboard_x11_def updateSelection_nocheck_def
        split: prod.splits)

lemma updateSelection_keeps:
  "m_newdata (snd (updateSelection env check st)) = m_newdata st"
  "m_updateTimer (snd (updateSelection env check st)) = m_updateTimer st"
  "sock_blocked (snd (updateSelection env check st)) = sock_blocked st"
  by (auto simp: updateSelection_def waitForKeyRelease_def checkClipboard_keeps Let_def
        split: prod.splits if_splits)

section \<open>The pending push and the debounce timer\<close>

lemma updateClipboard_pendingInv: "pendingInv (updateClipboard env d force st)"
  by (simp add: pendingInv_def updateClipboard_def setClipboardData_def Let_def)

lemma handleMessage_pendingInv: "pendingInv st \<Longrightarrow> pendingInv (handleMessage env f st)"
  by (cases f)
     (simp_all add: handleMessage_def updateClipboard_pendingInv Let_def,
      simp add: pendingInv_def checkClipboard_keeps applySettings_keeps)

lemma readLoop_pendingInv: "pendingInv st \<Longrightarrow> pendingInv (readLoop env fs st)"
proof (induction fs arbitrary: st)
  case Nil
  then show ?case by (simp add: pendingInv_def)
next
  case (Cons f fs)
  have step: "pendingInv (st\<lparr>sock_in := fs\<rparr>)"
    using Cons.prems by (simp add: pendingInv_def)
  show ?case
  proof (cases f)
    case Broken
    then show ?thesis using Cons.prems by (simp add: pendingInv_def logError_def)
  next
    case (Settings s)
    then show ?thesis using Cons.IH step by (simp add: handleMessage_pendingInv)
  next
    case (Push d)
    then show ?thesis using Cons.IH step by (simp add: handleMessage_pendingInv)
  qed
qed

lemma dispatch_pendingInv: "pendingInv st \<Longrightarrow> pendingInv (dispatch env ev st)"
proof (cases ev)
  case (Readable fs)
  assume inv: "pendingInv st"
  have "pendingInv (st\<lparr>sock_in := sock_in st @ fs, sock_blocked := True\<rparr>)"
    using inv by (simp add: pendingInv_def)
  then have "pendingInv (readyRead env (st\<lparr>sock_in := sock_in st @ fs\<rparr>))"
    by (simp add: readyRead_def readLoop_pendingInv)
  moreover have "pendingInv (st\<lparr>sock_in := sock_in st @ fs\<rparr>)"
    using inv by (simp add: pendingInv_def)
  ultimately show ?thesis using Readable by (simp add: dispatch_def Let_def)
next
  case UpdateTimerFired
  assume inv: "pendingInv st"
  show ?thesis
  proof (cases "m_newdata st")
    case None
    then show ?thesis using UpdateTimerFired
      by (simp add: dispatch_def updateTimeout_def pendingInv_def)
  next
    case (Some d)
    then show ?thesis using UpdateTimerFired inv
      by (simp add: dispatch_def updateTimeout_def updateClipboard_pendingInv)
  qed
next
  case X11TimerFired
  assume inv: "pendingInv st"
  show ?thesis using X11TimerFired inv
    by (simp add: dispatch_def pendingInv_def updateSelection_keeps)
next
  case (Changed mode)
  assume inv: "pendingInv st"
  show ?thesis using Changed inv
    by (simp add: dispatch_def pendingInv_def checkClipboard_keeps)
next
  case (ExternalChange mode snap)
  assume inv: "pendingInv st"
  show ?thesis using ExternalChange inv
    by (cases mode)
       (simp_all add: dispatch_def onExternalChange_def otherAppWrites_def pendingInv_def
          checkClipboard_keeps)
next
  case (Pointer w)
  assume inv: "pendingInv st"
  show ?thesis using Pointer inv by (simp add: dispatch_def pendingInv_def)
qed

lemma run_pendingInv: "pendingInv st \<Longrightarrow> pendingInv (run env evs st)"
  by (induction evs arbitrary: st) (simp_all add: dispatch_pendingInv)

lemma init_pendingInv: "pendingInv init"
  by (simp add: pendingInv_def init_def)

section \<open>The timers keep their intervals\<close>

lemma checkClipboard_timersInv: "timersInv st \<Longrightarrow> timersInv (checkClipboard env mode st)"
  using checkClipboard_x11_timer [of env mode st]
  by (auto simp: timersInv_def checkClipboard_keeps)

lemma updateClipboard_timersInv: "timersInv st \<Longrightarrow> timersInv (updateClipboard env d force st)"
  by (auto simp: timersInv_def updateClipboard_def setClipboardData_def Let_def)

lemma waitForKeyRelease_timersInv: "timersInv st \<Longrightarrow> timersInv (snd (waitForKeyRelease st))"
  by (auto simp: timersInv_def waitForKeyRelease_def Let_def)

lemma handleMessage_timersInv: "timersInv st \<Longrightarrow> timersInv (handleMessage env f st)"
proof (cases f)
  case Broken
  assume "timersInv st"
  then show ?thesis using Broken by (simp add: handleMessage_def)
next
  case (Settings s)
  assume "timersInv st"
  then have "timersInv (applySettings env s st)"
    by (simp add: timersInv_def applySettings_keeps)
  then show ?thesis using Settings
    by (simp add: handleMessage_def checkClipboard_timersInv Let_def)
next
  case (Push d)
  assume "timersInv st"
  then show ?thesis using Push by (simp add: handleMessage_def updateClipboard_timersInv)
qed

lemma readLoop_timersInv: "timersInv st \<Longrightarrow> timersInv (readLoop env fs st)"
proof (induction fs arbitrary: st)
  case Nil
  then show ?case by (simp add: timersInv_def)
next
  case (Cons f fs)
  have step: "timersInv (st\<lparr>sock_in := fs\<rparr>)"
    using Cons.prems by (simp add: timersInv_def)
  show ?case
  proof (cases f)
    case Broken
    then show ?thesis using Cons.prems by (simp add: timersInv_def logError_def)
  next
    case (Settings s)
    then show ?thesis using Cons.IH step by (simp add: handleMessage_timersInv)
  next
    case (Push d)
    then show ?thesis using Cons.IH step by (simp add: handleMessage_timersInv)
  qed
qed

lemma dispatch_timersInv: "timersInv st \<Longrightarrow> timersInv (dispatch env ev st)"
proof (cases ev)
  case (Readable fs)
  assume inv: "timersInv st"
  have "timersInv (st\<lparr>sock_in := sock_in st @ fs, sock_blocked := True\<rparr>)"
    using inv by (simp add: timersInv_def)
  then have "timersInv (readyRead env (st\<lparr>sock_in := sock_in st @ fs\<rparr>))"
    by (simp add: readyRead_def readLoop_timersInv)
  moreover have "timersInv (st\<lparr>sock_in := sock_in st @ fs\<rparr>)"
    using inv by (simp add: timersInv_def)
  ultimately show ?thesis using Readable by (simp add: dispatch_def Let_def)
next
  case UpdateTimerFired
  assume inv: "timersInv st"
  then have off: "timersInv (st\<lparr>m_updateTimer := None\<rparr>)"
    by (simp add: timersInv_def)
  show ?thesis
  proof (cases "m_newdata st")
    case None
    then show ?thesis using UpdateTimerFired inv off
      by (simp add: dispatch_def updateTimeout_def)
  next
    case (Some d)
    then show ?thesis using UpdateTimerFired inv off
      by (simp add: dispatch_def updateTimeout_def updateClipboard_timersInv)
  qed
next
  case X11TimerFired
  assume inv: "timersInv st"
  then have off: "timersInv (st\<lparr>x11_timer := None\<rparr>)"
    by (simp add: timersInv_def)
  have "timersInv (snd (updateSelection env True (st\<lparr>x11_timer := None\<rparr>)))"
    using waitForKeyRelease_timersInv [OF off]
    by (simp add: updateSelection_def split_beta checkClipboard_timersInv off)
  then show ?thesis using X11TimerFired inv by (simp add: dispatch_def)
next
  case (Changed mode)
  assume "timersInv st"
  then show ?thesis using Changed by (simp add: dispatch_def checkClipboard_timersInv)
next
  case (ExternalChange mode snap)
  assume "timersInv st"
  then have "timersInv (otherAppWrites mode snap st)"
    by (cases mode) (simp_all add: timersInv_def otherAppWrites_def)
  then show ?thesis using ExternalChange
    by (simp add: dispatch_def onExternalChange_def checkClipboard_timersInv)
next
  case (Pointer w)
  assume "timersInv st"
  then show ?thesis using Pointer by (simp add: dispatch_def timersInv_def)
qed

lemma run_timersInv: "timersInv st \<Longrightarrow> timersInv (run env evs st)"
  by (induction evs arbitrary: st) (simp_all add: dispatch_timersInv)

lemma reachable_timersInv: "timersInv (run env evs init)"
  by (rule run_timersInv) (simp add: timersInv_def init_def)

section \<open>A socket whose signals are blocked\<close>

lemma failed_read_leaves_blocked:
  "sock_in st = [] \<Longrightarrow> \<not> sock_blocked st \<Longrightarrow>
     sock_blocked (dispatch env (Readable (Broken # fs)) st)"
  by (simp add: dispatch_def readyRead_def logError_def Let_def)

lemma blocked_ignores_readable:
  "sock_blocked st \<Longrightarrow> dispatch env (Readable fs) st = st\<lparr>sock_in := sock_in st @ fs\<rparr>"
  by (simp add: dispatch_def Let_def)

lemma updateClipboard_sock_blocked:
  "sock_blocked (updateClipboard env d force st) = sock_blocked st"
  by (simp add: updateClipboard_def setClipboardData_def Let_def)

lemma dispatch_blocked: "sock_blocked st \<Longrightarrow> sock_blocked (dispatch env ev st)"
proof (cases ev)
  case (Readable fs)
  assume "sock_blocked st"
  then show ?thesis using Readable by (simp add: dispatch_def Let_def)
next
  case UpdateTimerFired
  assume "sock_blocked st"
  then show ?thesis using UpdateTimerFired
    by (simp add: dispatch_def updateTimeout_def updateClipboard_sock_blocked
          split: option.splits)
next
  case X11TimerFired
  assume "sock_blocked st"
  then show ?thesis using X11TimerFired by (simp add: dispatch_def updateSelection_keeps)
next
  case (Changed mode)
  assume "sock_blocked st"
  then show ?thesis using Changed by (simp add: dispatch_def checkClipboard_keeps)
next
  case (ExternalChange mode snap)
  assume "sock_blocked st"
  then show ?thesis using ExternalChange
    by (cases mode)
       (simp_all add: dispatch_def onExternalChange_def otherAppWrites_def
          checkClipboard_keeps)
next
  case (Pointer w)
  assume "sock_blocked st"
  then show ?thesis using Pointer by (simp add: dispatch_def)
qed

lemma blocked_for_good: "sock_blocked st \<Longrightarrow> sock_blocked (run env evs st)"
  by (induction evs arbitrary: st) (simp_all add: dispatch_blocked)

section \<open>Two external changes in a row\<close>

lemma second_change_adds_nothing:
  assumes "restrict c1 (m_formats st) = restrict c2 (m_formats st)"
  shows "effects (onExternalChange env mode (Some c2) (onExternalChange env mode (Some c1) st))
           = effects (onExternalChange env mode (Some c1) st)
       \<and> m_lastHash (onExternalChange env mode (Some c2) (onExternalChange env mode (Some c1) st))
           = m_lastHash (onExternalChange env mode (Some c1) st)"
  using assms
  by (cases mode)
     (auto simp: model_defs Let_def formats_Nil split: prod.splits if_splits)

lemma one_change_at_most_one_notification:
  "length (filter isSent (effects (onExternalChange env mode (Some c1) st)))
     \<le> Suc (length (filter isSent (effects st)))"
  by (cases mode)
     (auto simp: model_defs Let_def formats_Nil split: prod.splits if_splits)

lemma accepted_change_notifies_once:
  assumes "watchFlag mode st"
    and "mode = Clipboard \<or> (mode = Selection \<and> Q_WS_X11 env \<and> \<not> fst (waitForKeyRelease st))"
    and "restrict c1 (m_formats st) \<noteq> []"
    and "hash env c1 (m_formats st) \<noteq> m_lastHash st"
  shows "filter isSent (effects (onExternalChange env mode (Some c1) st))
           = filter isSent (effects st) @ [Sent (restrict c1 (m_formats st))]
         \<and> m_lastHash (onExternalChange env mode (Some c1) st) = hash env c1 (m_formats st)"
  using assms
  by (cases mode)
     (auto simp: model_defs watchFlag_def Let_def formats_Nil split: prod.splits if_splits)

section \<open>The claims\<close>

subsection \<open>C1: two pushes within the debounce interval\<close>

text \<open>
  C1 as stated fails. On the build without X11, from the initial state, the pushes
  \<open>textA\<close> then \<open>textB\<close> followed by the expiry of the debounce timer write the
  primary buffer twice: the first write, made when \<open>textA\<close> arrives, uses \<open>textA\<close>.
\<close>

theorem C1_counterexample:
  "effects (run env_other [Readable [Push textA], Readable [Push textB], UpdateTimerFired] init)
     = [Wrote Clipboard textA, Wrote Clipboard textB]"
  by (simp add: model_defs example_defs)

text \<open>
  C1, amended. A push P1 that arrives while the debounce timer is not running is written
  at once (to the primary buffer, and to the selection on X11) and starts the 500 ms
  timer. A push P2 that arrives before the timer fires writes nothing on arrival and
  stays pending. When the timer fires, exactly one apply follows, with the content of P2,
  which leaves P2 in the primary buffer and the pending slot empty.
\<close>

theorem C1_first_push_written_then_latest_once:
  assumes "m_updateTimer st = None" and "\<not> sock_blocked st" and "sock_in st = []"
  shows "(let s1 = dispatch env (Readable [Push p1]) st;
              s2 = dispatch env (Readable [Push p2]) s1;
              s3 = dispatch env UpdateTimerFired s2
          in effects s1 = effects st @ Wrote Clipboard p1
                            # (if Q_WS_X11 env then [Wrote Selection p1] else [])
             \<and> m_updateTimer s1 = Some 500
             \<and> effects s2 = effects s1
             \<and> m_newdata s2 = Some p2
             \<and> m_updateTimer s2 = Some 500
             \<and> effects s3 = effects s2 @ Wrote Clipboard p2
                            # (if Q_WS_X11 env then [Wrote Selection p2] else [])
             \<and> os_clipboard s3 = Some p2
             \<and> m_newdata s3 = None)"
  using assms by (simp add: model_defs Let_def)

text \<open>The amended C1 at the initial state on X11, with \<open>textA\<close> then \<open>textB\<close>.\<close>

theorem C1_witness:
  "m_updateTimer init = None \<and> \<not> sock_blocked init \<and> sock_in init = []
   \<and> effects (dispatch env_x11 UpdateTimerFired
        (dispatch env_x11 (Readable [Push textB])
          (dispatch env_x11 (Readable [Push textA]) init)))
     = effects (dispatch env_x11 (Readable [Push textB])
          (dispatch env_x11 (Readable [Push textA]) init))
       @ [Wrote Clipboard textB, Wrote Selection textB]"
  using C1_first_push_written_then_latest_once [of init env_x11 textA textB]
  by (simp add: init_def env_x11_def Let_def)

subsection \<open>C2: a frame that cannot be read\<close>

text \<open>
  C2 at a failing input: a broken frame arrives, later a push. \<^verbatim>\<open>readyRead\<close> logs
  and returns before it unblocks the signals of the socket, so the signals stay blocked;
  the later notification is not delivered, and the push stays unread in the socket with
  no buffer written. The same push alone is applied. (By \<open>blocked_for_good\<close> no later
  event unblocks the socket.)
\<close>

theorem C2_signals_stay_blocked_after_failed_read:
  "sock_blocked (run env_other [Readable [Broken]] init)
   \<and> effects (run env_other [Readable [Broken], Readable [Push textA]] init)
       = [Logged ''Cannot read message from server!'']
   \<and> sock_in (run env_other [Readable [Broken], Readable [Push textA]] init) = [Push textA]
   \<and> os_clipboard (run env_other [Readable [Broken], Readable [Push textA]] init) = None
   \<and> effects (run env_other [Readable [Push textA]] init) = [Wrote Clipboard textA]"
  by (simp add: model_defs example_defs)

subsection \<open>C3: a buffer that is not watched\<close>

text \<open>
  C3 as stated fails on X11. With \<^verbatim>\<open>check_clipboard\<close> off,
  \<^verbatim>\<open>copy_clipboard\<close> on and \<^verbatim>\<open>text/plain\<close> accepted, an external change of the
  clipboard updates the last hash (from 0 to the fingerprint of the content, here 12) and
  writes the selection.
\<close>

theorem C3_counterexample:
  "\<not> watchFlag Clipboard (init\<lparr>m_copyclip := True, m_formats := [''text/plain'']\<rparr>)
   \<and> m_lastHash (init\<lparr>m_copyclip := True, m_formats := [''text/plain'']\<rparr>) = 0
   \<and> m_lastHash (onExternalChange env_x11 Clipboard (Some textA)
        (init\<lparr>m_copyclip := True, m_formats := [''text/plain'']\<rparr>)) = 12
   \<and> effects (onExternalChange env_x11 Clipboard (Some textA)
        (init\<lparr>m_copyclip := True, m_formats := [''text/plain'']\<rparr>))
       = [Wrote Selection textA]"
  by (simp add: model_defs example_defs watchFlag_def restrict_def formats_def Let_def)

text \<open>
  C3, amended. If the watch flag of the buffer is off, an external change on it emits no
  notification, whatever the mirror flag is. The change is ignored altogether (no field
  of the monitor changes, so the last hash is kept and nothing is written) if the mirror
  flag of the buffer is off as well, or on a build without X11.
\<close>

theorem C3_unwatched_buffer_never_notifies:
  assumes "\<not> watchFlag mode st"
  shows "filter isSent (effects (onExternalChange env mode snap st)) = filter isSent (effects st)
         \<and> (\<not> Q_WS_X11 env \<or> \<not> mirrorFlag mode st
              \<longrightarrow> onExternalChange env mode snap st = otherAppWrites mode snap st)"
  using assms
  by (cases mode)
     (auto simp: model_defs watchFlag_def mirrorFlag_def Let_def
        split: option.splits prod.splits if_splits)

text \<open>The amended C3 at the initial state, where every flag is off.\<close>

theorem C3_witness:
  "\<not> watchFlag Clipboard init
   \<and> filter isSent (effects (onExternalChange env_x11 Clipboard (Some textA) init))
       = filter isSent (effects init)
   \<and> \<not> mirrorFlag Clipboard init
   \<and> onExternalChange env_x11 Clipboard (Some textA) init = otherAppWrites Clipboard (Some textA) init"
  using C3_unwatched_buffer_never_notifies [of Clipboard init env_x11 "Some textA"]
  by (simp add: watchFlag_def mirrorFlag_def init_def otherAppWrites_def)

subsection \<open>C4: applying a push\<close>

text \<open>
  C4 as stated fails on X11. In the initial state no mirror flag is set, and a push that
  is applied writes the selection all the same.
\<close>

theorem C4_counterexample:
  "\<not> m_copyclip init \<and> \<not> m_copysel init
   \<and> effects (dispatch env_x11 (Readable [Push textA]) init)
       = [Wrote Clipboard textA, Wrote Selection textA]"
  by (simp add: model_defs example_defs)

text \<open>
  C4, amended. A push that is applied (forced, or with the debounce timer not running)
  sets the last hash to the fingerprint of the pushed data over its own formats, writes
  the primary buffer, and writes a copy to the selection exactly on the X11 build,
  whatever the mirror flags are; on the other build the selection is left as it is.
\<close>

theorem C4_push_applied_selection_written_on_x11:
  assumes "force \<or> m_updateTimer st = None"
  shows "m_lastHash (updateClipboard env d force st) = hash env d (formats d)
         \<and> effects (updateClipboard env d force st)
             = effects st @ Wrote Clipboard d # (if Q_WS_X11 env then [Wrote Selection d] else [])
         \<and> os_clipboard (updateClipboard env d force st) = Some d
         \<and> (Q_WS_X11 env \<longrightarrow> os_selection (updateClipboard env d force st) = Some d)
         \<and> (\<not> Q_WS_X11 env \<longrightarrow> os_selection (updateClipboard env d force st) = os_selection st)"
  using assms by (auto simp: updateClipboard_def setClipboardData_def cloneData_def Let_def)

text \<open>The amended C4 on the build without X11: one write, the selection untouched.\<close>

theorem C4_witness:
  "m_updateTimer init = None
   \<and> effects (updateClipboard env_other textA False init) = [Wrote Clipboard textA]
   \<and> os_selection (updateClipboard env_other textA False init) = None"
  using C4_push_applied_selection_written_on_x11 [of False init env_other textA]
  by (simp add: init_def env_other_def)

subsection \<open>C5: the same content observed twice\<close>

text \<open>
  C5 as stated fails: two external changes in a row with the same restricted content can
  emit no notification at all. In the constructor's state the clipboard is not watched;
  and with the clipboard watched and \<^verbatim>\<open>text/plain\<close> the only accepted format, a
  snapshot that holds only \<^verbatim>\<open>image/png\<close> restricts to nothing.
\<close>

theorem C5_counterexample:
  "filter isSent (effects (onExternalChange env_other Clipboard (Some textA)
      (onExternalChange env_other Clipboard (Some textA) init))) = []
   \<and> m_checkclip (init\<lparr>m_checkclip := True, m_formats := [''text/plain'']\<rparr>)
   \<and> filter isSent (effects (onExternalChange env_other Clipboard (Some pngOnly)
        (onExternalChange env_other Clipboard (Some pngOnly)
           (init\<lparr>m_checkclip := True, m_formats := [''text/plain'']\<rparr>)))) = []"
  by (simp add: model_defs example_defs restrict_def formats_def)

text \<open>
  C5, amended. Of two external changes in a row on the same buffer whose snapshots have
  the same restriction to the accepted formats, the second emits no notification, writes
  nothing and keeps the last hash; so at most one notification is emitted. Exactly one is
  emitted, with the restricted content, when the first change is accepted: the buffer is
  watched, the selection is not being formed, the restricted content is not empty and its
  fingerprint differs from the last hash. The second change then meets its own
  fingerprint in the last hash.
\<close>

theorem C5_second_identical_change_is_ignored:
  assumes "restrict c1 (m_formats st) = restrict c2 (m_formats st)"
  shows "(let s1 = onExternalChange env mode (Some c1) st;
              s2 = onExternalChange env mode (Some c2) s1
          in effects s2 = effects s1
             \<and> m_lastHash s2 = m_lastHash s1
             \<and> length (filter isSent (effects s2)) \<le> Suc (length (filter isSent (effects st)))
             \<and> (watchFlag mode st
                  \<and> (mode = Clipboard
                       \<or> (mode = Selection \<and> Q_WS_X11 env \<and> \<not> fst (waitForKeyRelease st)))
                  \<and> restrict c1 (m_formats st) \<noteq> []
                  \<and> hash env c1 (m_formats st) \<noteq> m_lastHash st
                \<longrightarrow> filter isSent (effects s2)
                      = filter isSent (effects st) @ [Sent (restrict c1 (m_formats st))]
                    \<and> m_lastHash s1 = hash env c2 (m_formats st)))"
proof -
  have h: "hash env c1 (m_formats st) = hash env c2 (m_formats st)"
    using assms by (simp add: hash_def)
  show ?thesis
    using second_change_adds_nothing [OF assms, of env mode] one_change_at_most_one_notification [of env mode c1 st]
      accepted_change_notifies_once [of mode st env c1] h
    by (simp add: Let_def)
qed

text \<open>
  The amended C5 with \<^verbatim>\<open>text/plain\<close> accepted: text with an image, then the same text
  alone.
\<close>

theorem C5_witness:
  "restrict textAndPng (m_formats (init\<lparr>m_checkclip := True, m_formats := [''text/plain'']\<rparr>))
     = restrict [(''text/plain'', ''hello'')]
         (m_formats (init\<lparr>m_checkclip := True, m_formats := [''text/plain'']\<rparr>))
   \<and> watchFlag Clipboard (init\<lparr>m_checkclip := True, m_formats := [''text/plain'']\<rparr>)
   \<and> filter isSent (effects (onExternalChange env_other Clipboard (Some [(''text/plain'', ''hello'')])
        (onExternalChange env_other Clipboard (Some textAndPng)
           (init\<lparr>m_checkclip := True, m_formats := [''text/plain'']\<rparr>))))
       = [Sent [(''text/plain'', ''hello'')]]"
  using C5_second_identical_change_is_ignored
          [of textAndPng "init\<lparr>m_checkclip := True, m_formats := [''text/plain'']\<rparr>"
              "[(''text/plain'', ''hello'')]" env_other Clipboard]
  by (auto simp: Let_def restrict_def watchFlag_def hash_def example_defs)

subsection \<open>C6: a selection that is still being formed\<close>

text \<open>
  C6. On X11, while \<^verbatim>\<open>waitForKeyRelease\<close> reports that the selection is being formed,
  an external change of the selection emits and writes nothing and keeps the last hash;
  if the selection is watched or mirrored, the 100 ms timer is running afterwards. When
  that timer fires the guard is asked again: if it still reports true, nothing is
  evaluated and the timer runs for another 100 ms; if it reports false, the selection is
  evaluated by \<^verbatim>\<open>checkClipboard\<close>.
\<close>

theorem C6_selection_change_deferred_while_forming:
  assumes "Q_WS_X11 env" and "fst (waitForKeyRelease st)"
    and "x11_timer st = None \<or> x11_timer st = Some 100"
  shows "effects (onExternalChange env Selection snap st) = effects st
         \<and> m_lastHash (onExternalChange env Selection snap st) = m_lastHash st
         \<and> os_clipboard (onExternalChange env Selection snap st) = os_clipboard st
         \<and> (m_checksel st \<or> m_copysel st \<longrightarrow>
              x11_timer (onExternalChange env Selection snap st) = Some 100)
         \<and> (x11_timer st \<noteq> None \<longrightarrow>
              (if fst (waitForKeyRelease (st\<lparr>x11_timer := None\<rparr>))
               then effects (dispatch env X11TimerFired st) = effects st
                    \<and> m_lastHash (dispatch env X11TimerFired st) = m_lastHash st
                    \<and> x11_timer (dispatch env X11TimerFired st) = Some 100
               else dispatch env X11TimerFired st
                      = checkClipboard env Selection
                          (snd (waitForKeyRelease (st\<lparr>x11_timer := None\<rparr>)))))"
proof -
  let ?st0 = "otherAppWrites Selection snap st"
  have f0: "fst (waitForKeyRelease ?st0)"
    using assms(2) by (simp add: waitForKeyRelease_other)
  have eq: "onExternalChange env Selection snap st
              = (if m_checksel st \<or> m_copysel st then snd (waitForKeyRelease ?st0) else ?st0)"
    using forming_checkClipboard [OF assms(1) f0]
    by (simp add: onExternalChange_def otherAppWrites_Selection)
  have a: "effects (onExternalChange env Selection snap st) = effects st"
    by (simp add: eq waitForKeyRelease_snd otherAppWrites_Selection)
  have b: "m_lastHash (onExternalChange env Selection snap st) = m_lastHash st"
    by (simp add: eq waitForKeyRelease_snd otherAppWrites_Selection)
  have c: "os_clipboard (onExternalChange env Selection snap st) = os_clipboard st"
    by (simp add: eq waitForKeyRelease_snd otherAppWrites_Selection)
  have d: "m_checksel st \<or> m_copysel st \<longrightarrow>
             x11_timer (onExternalChange env Selection snap st) = Some 100"
    using waitForKeyRelease_timer [OF f0] assms(3)
    by (auto simp: eq otherAppWrites_Selection)
  have e: "x11_timer st \<noteq> None \<longrightarrow>
              (if fst (waitForKeyRelease (st\<lparr>x11_timer := None\<rparr>))
               then effects (dispatch env X11TimerFired st) = effects st
                    \<and> m_lastHash (dispatch env X11TimerFired st) = m_lastHash st
                    \<and> x11_timer (dispatch env X11TimerFired st) = Some 100
               else dispatch env X11TimerFired st
                      = checkClipboard env Selection
                          (snd (waitForKeyRelease (st\<lparr>x11_timer := None\<rparr>))))"
    using assms(1) waitForKeyRelease_timer [of "st\<lparr>x11_timer := None\<rparr>"]
      waitForKeyRelease_snd [of "st\<lparr>x11_timer := None\<rparr>"]
    by (simp add: dispatch_def updateSelection_def split_beta)
  show ?thesis using a b c d e by blast
qed

text \<open>
  C6 with the selection watched, button 1 held and the timer running: the change is not
  evaluated, and neither is it when the timer fires with the button still held.
\<close>

theorem C6_witness:
  "Q_WS_X11 env_x11
   \<and> fst (waitForKeyRelease (init\<lparr>m_checksel := True, os_pointer := 256, x11_timer := Some 100\<rparr>))
   \<and> x11_timer (init\<lparr>m_checksel := True, os_pointer := 256, x11_timer := Some 100\<rparr>) = Some 100
   \<and> effects (onExternalChange env_x11 Selection (Some textA)
        (init\<lparr>m_checksel := True, os_pointer := 256, x11_timer := Some 100\<rparr>)) = []
   \<and> x11_timer (onExternalChange env_x11 Selection (Some textA)
        (init\<lparr>m_checksel := True, os_pointer := 256, x11_timer := Some 100\<rparr>)) = Some 100
   \<and> effects (dispatch env_x11 X11TimerFired
        (init\<lparr>m_checksel := True, os_pointer := 256, x11_timer := Some 100\<rparr>)) = []
   \<and> x11_timer (dispatch env_x11 X11TimerFired
        (init\<lparr>m_checksel := True, os_pointer := 256, x11_timer := Some 100\<rparr>)) = Some 100"
  using C6_selection_change_deferred_while_forming
          [of env_x11 "init\<lparr>m_checksel := True, os_pointer := 256, x11_timer := Some 100\<rparr>"
              "Some textA"]
  by (simp add: waitForKeyRelease_def Button1Mask_def ShiftMask_def init_def env_x11_def Let_def)

subsection \<open>C7: settings are updated field by field\<close>

text \<open>
  C7. A settings message changes only the configuration fields whose keys it holds: each
  of the accepted formats, the two watch flags and the two mirror flags keeps its value
  when its key is absent, through the update and the re-evaluation of both buffers that
  follows. A key that is present sets its field (the three selection keys on X11 only).
\<close>

theorem C7_settings_update_only_present_fields:
  "(s_formats s = None \<longrightarrow>
      m_formats (handleMessage env (Settings s) st) = m_formats st)
   \<and> (s_check_clipboard s = None \<longrightarrow>
      m_checkclip (handleMessage env (Settings s) st) = m_checkclip st)
   \<and> (s_copy_clipboard s = None \<longrightarrow>
      m_copyclip (handleMessage env (Settings s) st) = m_copyclip st)
   \<and> (s_copy_selection s = None \<longrightarrow>
      m_copysel (handleMessage env (Settings s) st) = m_copysel st)
   \<and> (s_check_selection s = None \<longrightarrow>
      m_checksel (handleMessage env (Settings s) st) = m_checksel st)
   \<and> (\<forall>l. s_formats s = Some l \<longrightarrow>
      m_formats (handleMessage env (Settings s) st) = splitList [] False l)
   \<and> (\<forall>b. s_check_clipboard s = Some b \<longrightarrow>
      m_checkclip (handleMessage env (Settings s) st) = b)
   \<and> (Q_WS_X11 env \<longrightarrow>
        (\<forall>b. s_copy_clipboard s = Some b \<longrightarrow>
           m_copyclip (handleMessage env (Settings s) st) = b)
      \<and> (\<forall>b. s_copy_selection s = Some b \<longrightarrow>
           m_copysel (handleMessage env (Settings s) st) = b)
      \<and> (\<forall>b. s_check_selection s = Some b \<longrightarrow>
           m_checksel (handleMessage env (Settings s) st) = b))"
  by (simp add: handleMessage_Settings_fields applySettings_fields)

text \<open>C7 for a message that holds \<^verbatim>\<open>formats\<close> only: the four flags stay.\<close>

theorem C7_witness:
  "s_check_clipboard onlyFormats = None \<and> s_copy_clipboard onlyFormats = None
   \<and> s_copy_selection onlyFormats = None \<and> s_check_selection onlyFormats = None
   \<and> s_formats onlyFormats = Some ''text/plain'' \<and> Q_WS_X11 env_x11
   \<and> m_checkclip (handleMessage env_x11 (Settings onlyFormats)
        (init\<lparr>m_checkclip := True, m_copysel := True\<rparr>)) = True
   \<and> m_copyclip (handleMessage env_x11 (Settings onlyFormats)
        (init\<lparr>m_checkclip := True, m_copysel := True\<rparr>)) = False
   \<and> m_copysel (handleMessage env_x11 (Settings onlyFormats)
        (init\<lparr>m_checkclip := True, m_copysel := True\<rparr>)) = True
   \<and> m_checksel (handleMessage env_x11 (Settings onlyFormats)
        (init\<lparr>m_checkclip := True, m_copysel := True\<rparr>)) = False
   \<and> m_formats (handleMessage env_x11 (Settings onlyFormats)
        (init\<lparr>m_checkclip := True, m_copysel := True\<rparr>)) = [''text/plain'']"
  using C7_settings_update_only_present_fields
          [of onlyFormats env_x11 "init\<lparr>m_checkclip := True, m_copysel := True\<rparr>"]
  by (simp add: onlyFormats_def env_x11_def init_def isSeparator_def)

subsection \<open>C8: the last hash is bootstrapped once\<close>



subsection \<open>C9: the pending push\<close>

text \<open>
  C9. The pending-push slot is filled only while the debounce timer is active: this holds
  in the initial state, is kept by every event, and so holds in every state the event
  loop reaches; it holds after every call of \<^verbatim>\<open>updateClipboard\<close>. An apply
  (forced, or with the timer not running) leaves the slot empty. With the slot empty,
  \<^verbatim>\<open>updateTimeout\<close> changes nothing and an expiry of the timer has no effect outside.
\<close>

theorem C9_pending_push_only_while_timer_active:
  "pendingInv init
   \<and> (pendingInv st \<longrightarrow> pendingInv (dispatch env ev st))
   \<and> pendingInv (run env evs init)
   \<and> pendingInv (updateClipboard env d force st)
   \<and> (force \<or> m_updateTimer st = None \<longrightarrow> m_newdata (updateClipboard env d force st) = None)
   \<and> (m_newdata st = None \<longrightarrow> updateTimeout env st = st
        \<and> effects (dispatch env UpdateTimerFired st) = effects st)"
proof -
  have a: "force \<or> m_updateTimer st = None \<longrightarrow> m_newdata (updateClipboard env d force st) = None"
    by (auto simp: updateClipboard_def setClipboardData_def Let_def)
  have b: "m_newdata st = None \<longrightarrow> updateTimeout env st = st"
    by (simp add: updateTimeout_def)
  have c: "m_newdata st = None \<longrightarrow> effects (dispatch env UpdateTimerFired st) = effects st"
    by (simp add: dispatch_def updateTimeout_def)
  show ?thesis
    using a b c init_pendingInv dispatch_pendingInv run_pendingInv updateClipboard_pendingInv
    by blast
qed

text \<open>C9 at the initial state, with two pushes in one pass of \<^verbatim>\<open>readyRead\<close>.\<close>

theorem C9_witness:
  "pendingInv init
   \<and> pendingInv (dispatch env_x11 (Readable [Push textA, Push textB]) init)
   \<and> m_updateTimer init = None
   \<and> m_newdata (updateClipboard env_x11 textA False init) = None
   \<and> m_newdata init = None
   \<and> updateTimeout env_x11 init = init"
  using C9_pending_push_only_while_timer_active
          [of init env_x11 "Readable [Push textA, Push textB]" "[]" textA False]
  by (simp add: init_def)

subsection \<open>C10: the fingerprint of an applied push\<close>

text \<open>
  A format name that no entry of the data carries: longer than all of them together.
\<close>

lemma length_le_sum_lengths: "x \<in> set xs \<Longrightarrow> length x \<le> sum_list (map length xs)"
  by (induction xs) auto

lemma fresh_format: "replicate (Suc (sum_list (map length xs))) c \<notin> set xs"
proof
  assume "replicate (Suc (sum_list (map length xs))) c \<in> set xs"
  then have "length (replicate (Suc (sum_list (map length xs))) c) \<le> sum_list (map length xs)"
    by (rule length_le_sum_lengths)
  then show False by simp
qed

lemma restrict_fresh:
  "restrict d [replicate (Suc (sum_list (map length (formats d)))) c] = []"
proof -
  have "\<And>kv. kv \<in> set d \<Longrightarrow> fst kv \<noteq> replicate (Suc (sum_list (map length (formats d)))) c"
  proof
    fix kv
    assume mem: "kv \<in> set d"
      and eq: "fst kv = replicate (Suc (sum_list (map length (formats d)))) c"
    from mem have "fst kv \<in> fst ` set d" by (rule imageI)
    then have "fst kv \<in> set (formats d)" by (simp add: formats_def)
    then show False using fresh_format [of "formats d" c] by (simp only: eq)
  qed
  then show ?thesis by (simp add: restrict_def filter_empty_conv)
qed

lemma updateClipboard_applied:
  "force \<or> m_updateTimer st = None \<Longrightarrow>
     m_lastHash (updateClipboard env d force st) = hash env d (formats d)"
  by (auto simp: updateClipboard_def setClipboardData_def Let_def)

lemma updateClipboard_formats:
  "m_formats (updateClipboard env d force st) = m_formats st"
  by (simp add: updateClipboard_def setClipboardData_def Let_def)

text \<open>
  C10. A push that is applied records the fingerprint of the pushed data over its own
  format list, that is of the whole data, not over the accepted formats. Unless the
  fingerprint of this build is constant, there is a push, applied with the timer idle,
  whose restriction to the accepted formats differs from the data and whose recorded
  fingerprint differs from the one an external observation of the same content computes
  with the accepted formats.
\<close>

theorem C10_push_fingerprint_over_own_formats:
  assumes "force \<or> m_updateTimer st = None"
    and "fingerprint env a \<noteq> fingerprint env b"
  shows "m_lastHash (updateClipboard env d force st) = hash env d (formats d)
         \<and> hash env d (formats d) = fingerprint env d
         \<and> (\<exists>d' st'. m_updateTimer st' = None
              \<and> restrict d' (m_formats st') \<noteq> d'
              \<and> m_lastHash (updateClipboard env d' False st')
                  \<noteq> hash env d' (m_formats (updateClipboard env d' False st')))"
proof -
  have one: "m_lastHash (updateClipboard env d force st) = hash env d (formats d)"
    using assms(1) by (rule updateClipboard_applied)
  have two: "hash env d (formats d) = fingerprint env d"
    by (simp add: hash_def restrict_own_formats)
  obtain p where p: "fingerprint env p \<noteq> fingerprint env []"
    using assms(2) by metis
  then have ne: "p \<noteq> []" by auto
  let ?F = "[replicate (Suc (sum_list (map length (formats p)))) CHR ''x'']"
  let ?st = "init\<lparr>m_formats := ?F\<rparr>"
  have idle: "m_updateTimer ?st = None" by (simp add: init_def)
  have r: "restrict p (m_formats ?st) = []"
    using restrict_fresh [of p "CHR ''x''"] by simp
  have rec: "m_lastHash (updateClipboard env p False ?st) = fingerprint env p"
    using updateClipboard_applied [of False ?st env p] idle
    by (simp add: hash_def restrict_own_formats)
  have obs: "hash env p (m_formats (updateClipboard env p False ?st)) = fingerprint env []"
    using r by (simp add: updateClipboard_formats hash_def)
  have "m_updateTimer ?st = None \<and> restrict p (m_formats ?st) \<noteq> p
        \<and> m_lastHash (updateClipboard env p False ?st)
            \<noteq> hash env p (m_formats (updateClipboard env p False ?st))"
    using idle r ne rec obs p by simp
  then have three: "\<exists>d' st'. m_updateTimer st' = None
              \<and> restrict d' (m_formats st') \<noteq> d'
              \<and> m_lastHash (updateClipboard env d' False st')
                  \<noteq> hash env d' (m_formats (updateClipboard env d' False st'))"
    by blast
  show ?thesis using one two three by blast
qed

text \<open>
  C10 on the X11 build with the byte-counting fingerprint, which tells \<open>textA\<close> from
  the empty snapshot.
\<close>

theorem C10_witness:
  "m_updateTimer init = None
   \<and> fingerprint env_x11 textA \<noteq> fingerprint env_x11 []
   \<and> m_lastHash (updateClipboard env_x11 textAndPng False init)
       = hash env_x11 textAndPng (formats textAndPng)
   \<and> (\<exists>d' st'. m_updateTimer st' = None
        \<and> restrict d' (m_formats st') \<noteq> d'
        \<and> m_lastHash (updateClipboard env_x11 d' False st')
            \<noteq> hash env_x11 d' (m_formats (updateClipboard env_x11 d' False st')))"
  using C10_push_fingerprint_over_own_formats [of False init env_x11 textA "[]" textAndPng]
  by (simp add: init_def env_x11_def exampleFingerprint_def textA_def)

end
